theory Spec2Isabelle
  imports Complex_Main "HOL-Library.Log_Nat" "HOL-Library.Multiset" "HOL-Library.Word"
begin

section \<open>JavaScript numbers\<close>

text \<open>
  Every arithmetic value of the two functions is a JavaScript \<open>number\<close>: an IEEE 754
  binary64 value. A finite value is kept as the rational it denotes; the two infinities
  and NaN are the remaining constructors. Each operation computes the exact result and
  rounds it to the nearest binary64 value, as the hardware does. The sign of zero is not
  tracked: no comparison tells the two zeros apart, and a division could only through a
  negative zero divisor, whereas the one variable the program divides by is the height
  of an image (\<open>naturalHeight\<close>, a non-negative integer).
\<close>

datatype number = Fin rat | PInf | NInf | NaN

definition pow2 :: "int \<Rightarrow> rat" where
  "pow2 e = (if 0 \<le> e then 2 ^ nat e else 1 / 2 ^ nat (- e))"

definition ilog2 :: "rat \<Rightarrow> int" where
  \<comment> \<open>the binary exponent of a positive rational: the largest e with 2 ^ e \<le> a\<close>
  "ilog2 a = (let e = bitlen (fst (quotient_of a)) - bitlen (snd (quotient_of a))
              in if pow2 e \<le> a then e else e - 1)"

definition roundTiesToEven :: "rat \<Rightarrow> int" where
  "roundTiesToEven q = (let f = \<lfloor>q\<rfloor>; d = q - of_int f
     in if d < 1 / 2 then f else if 1 / 2 < d then f + 1 else if even f then f else f + 1)"

definition double :: "rat \<Rightarrow> number" where
  \<comment> \<open>the binary64 value nearest to x, as every arithmetic operation and every decimal
      literal of the source rounds its exact result: a significand m of at most 53 bits
      at a binary exponent e between -1022 and 1023, a tie going to the even m, and an
      infinity once the rounded magnitude reaches 2 ^ 1024\<close>
  "double x = (if x = 0 then Fin 0
     else let a = \<bar>x\<bar>;
              e = max (ilog2 a) (- 1022);
              u = pow2 (e - 52);
              m = roundTiesToEven (a / u)
          in if 1024 \<le> e \<or> (e = 1023 \<and> m = 2 ^ 53) then (if 0 < x then PInf else NInf)
             else Fin (if 0 < x then of_int m * u else - (of_int m * u)))"

fun neg :: "number \<Rightarrow> number" where
  "neg (Fin a) = Fin (- a)"
| "neg PInf = NInf"
| "neg NInf = PInf"
| "neg NaN = NaN"

fun Math_abs :: "number \<Rightarrow> number" where
  "Math_abs (Fin a) = Fin \<bar>a\<bar>"
| "Math_abs PInf = PInf"
| "Math_abs NInf = PInf"
| "Math_abs NaN = NaN"

fun Math_round :: "number \<Rightarrow> number" where
  \<comment> \<open>Math.round: the integer nearest to x, a tie going up\<close>
  "Math_round (Fin a) = Fin (of_int \<lfloor>a + 1 / 2\<rfloor>)"
| "Math_round x = x"

instantiation number :: "{plus, minus, times, inverse, ord}"
begin

fun plus_number :: "number \<Rightarrow> number \<Rightarrow> number" where
  "plus_number (Fin a) (Fin b) = double (a + b)"
| "plus_number NaN _ = NaN"
| "plus_number _ NaN = NaN"
| "plus_number PInf NInf = NaN"
| "plus_number NInf PInf = NaN"
| "plus_number PInf _ = PInf"
| "plus_number NInf _ = NInf"
| "plus_number (Fin a) x = x"

definition minus_number :: "number \<Rightarrow> number \<Rightarrow> number" where
  "minus_number x y = x + neg y"

fun times_number :: "number \<Rightarrow> number \<Rightarrow> number" where
  "times_number (Fin a) (Fin b) = double (a * b)"
| "times_number NaN _ = NaN"
| "times_number _ NaN = NaN"
| "times_number (Fin a) x = (if a = 0 then NaN else if 0 < a then x else neg x)"
| "times_number x (Fin b) = (if b = 0 then NaN else if 0 < b then x else neg x)"
| "times_number PInf x = x"
| "times_number NInf x = neg x"

fun divide_number :: "number \<Rightarrow> number \<Rightarrow> number" where
  "divide_number (Fin a) (Fin b) =
     (if b = 0 then (if a = 0 then NaN else if 0 < a then PInf else NInf)
      else double (a / b))"
| "divide_number NaN _ = NaN"
| "divide_number _ NaN = NaN"
| "divide_number (Fin a) _ = Fin 0"
| "divide_number x (Fin b) = (if 0 \<le> b then x else neg x)"
| "divide_number _ _ = NaN"

definition inverse_number :: "number \<Rightarrow> number" where
  "inverse_number x = divide (Fin 1) x"

fun less_number :: "number \<Rightarrow> number \<Rightarrow> bool" where
  "less_number (Fin a) (Fin b) = (a < b)"
| "less_number NaN _ = False"
| "less_number _ NaN = False"
| "less_number _ NInf = False"
| "less_number PInf _ = False"
| "less_number _ _ = True"

fun less_eq_number :: "number \<Rightarrow> number \<Rightarrow> bool" where
  "less_eq_number (Fin a) (Fin b) = (a \<le> b)"
| "less_eq_number NaN _ = False"
| "less_eq_number _ NaN = False"
| "less_eq_number NInf _ = True"
| "less_eq_number _ PInf = True"
| "less_eq_number _ _ = False"

instance ..

end

definition Math_min :: "number \<Rightarrow> number \<Rightarrow> number" where
  "Math_min x y = (if x = NaN \<or> y = NaN then NaN else if y < x then y else x)"

definition Math_max :: "number \<Rightarrow> number \<Rightarrow> number" where
  "Math_max x y = (if x = NaN \<or> y = NaN then NaN else if x < y then y else x)"

section \<open>Pole height estimation\<close>

text \<open>
  \<open>estimatePoleHeight\<close> of \<open>PoleHeightDetector.tsx\<close>. Its two conditionals are named
  \<open>baseEstimate\<close> and \<open>sizeAdjust\<close>; the function has no other branch, no guard and no
  statement that throws, and its result type is the interface \<open>PoleHeight\<close>.
\<close>

record PoleHeight =
  estimatedHeight :: number
  confidence :: number
  referenceUsed :: string

definition positionRatio :: "number \<Rightarrow> number \<Rightarrow> number \<Rightarrow> number" where
  "positionRatio y1 y2 imageHeight = (let lightPosition = (y1 + y2) / Fin 2 in lightPosition / imageHeight)"

definition sizeRatio :: "number \<Rightarrow> number \<Rightarrow> number \<Rightarrow> number" where
  "sizeRatio y1 y2 imageHeight = (let lightHeight = Math_abs (y2 - y1) in lightHeight / imageHeight)"

definition baseEstimate :: "number \<Rightarrow> PoleHeight" where
  \<comment> \<open>the first conditional of estimatePoleHeight: height, confidence and reference
      from the vertical position\<close>
  "baseEstimate ratio =
     (if double (7 / 10) < ratio then
        \<lparr>estimatedHeight = double (45 / 10), confidence = double (8 / 10),
         referenceUsed = ''Standard urban intersection''\<rparr>
      else if double (4 / 10) < ratio then
        \<lparr>estimatedHeight = double (52 / 10), confidence = double (7 / 10),
         referenceUsed = ''Highway or major road''\<rparr>
      else
        \<lparr>estimatedHeight = double (61 / 10), confidence = double (6 / 10),
         referenceUsed = ''Highway overpass''\<rparr>)"

definition sizeAdjust :: "number \<Rightarrow> PoleHeight \<Rightarrow> PoleHeight" where
  \<comment> \<open>the second conditional: the adjustment by apparent size\<close>
  "sizeAdjust ratio p =
     (if double (1 / 10) < ratio then
        p\<lparr>estimatedHeight := estimatedHeight p * double (9 / 10),
          confidence := Math_min (confidence p + double (1 / 10)) (double (9 / 10))\<rparr>
      else if ratio < double (2 / 100) then
        p\<lparr>estimatedHeight := estimatedHeight p * double (12 / 10),
          confidence := Math_max (confidence p - double (1 / 10)) (double (5 / 10))\<rparr>
      else p)"

definition estimatePoleHeight ::
  "number \<Rightarrow> number \<Rightarrow> number \<Rightarrow> number \<Rightarrow> number \<Rightarrow> number \<Rightarrow> PoleHeight" where
  "estimatePoleHeight x1 y1 x2 y2 imageWidth imageHeight =
     (let p = sizeAdjust (sizeRatio y1 y2 imageHeight)
                (baseEstimate (positionRatio y1 y2 imageHeight))
      in p\<lparr>estimatedHeight := Math_round (estimatedHeight p * Fin 10) / Fin 10\<rparr>)"

section \<open>Colour classification\<close>

text \<open>
  \<open>analyzeTrafficLightColor\<close>, which takes \<open>ImageData | undefined\<close> and returns one of
  the strings Red, Yellow, Green, Unknown.
  \<open>ImageData.data\<close> is a \<open>Uint8ClampedArray\<close> holding four bytes for each pixel of the
  region, row by row; it is kept as the list of its pixels, each the bytes R, G, B, A.
  The loops read indices \<open>i\<close>, \<open>i + 1\<close>, \<open>i + 2\<close> with \<open>i\<close> stepping by four, which is one
  pixel of the list at a time. The running sums and counts are non-negative integers that
  stay below 2 ^ 53 for every region an \<open>ImageData\<close> can hold (255 times the number of
  pixels at most), where adding them as numbers is exact (\<open>accumulate_exact\<close> below);
  they are kept as naturals and become a \<open>number\<close> where the source divides.
\<close>

type_synonym pixel = "8 word \<times> 8 word \<times> 8 word \<times> 8 word"

fun red :: "pixel \<Rightarrow> nat" where
  "red (r, g, b, a) = unat r"

fun green :: "pixel \<Rightarrow> nat" where
  "green (r, g, b, a) = unat g"

fun blue :: "pixel \<Rightarrow> nat" where
  "blue (r, g, b, a) = unat b"

fun rgb :: "pixel \<Rightarrow> 8 word \<times> 8 word \<times> 8 word" where
  "rgb (r, g, b, a) = (r, g, b)"

definition brightness :: "pixel \<Rightarrow> number" where
  "brightness p = Fin (of_nat (red p + green p + blue p)) / Fin 3"

record buckets =
  redSum :: nat
  greenSum :: nat
  blueSum :: nat
  brightPixels :: nat
  dimPixels :: nat
  dimRedSum :: nat
  dimGreenSum :: nat
  dimBlueSum :: nat
  veryDimPixels :: nat
  veryDimRedSum :: nat
  veryDimGreenSum :: nat
  veryDimBlueSum :: nat

definition noSums :: buckets where
  "noSums = \<lparr>redSum = 0, greenSum = 0, blueSum = 0, brightPixels = 0,
     dimPixels = 0, dimRedSum = 0, dimGreenSum = 0, dimBlueSum = 0,
     veryDimPixels = 0, veryDimRedSum = 0, veryDimGreenSum = 0, veryDimBlueSum = 0\<rparr>"

definition addPixel :: "pixel \<Rightarrow> buckets \<Rightarrow> buckets" where
  \<comment> \<open>the body of the first loop\<close>
  "addPixel p s =
     (if brightness p > Fin 60 then
        s\<lparr>redSum := redSum s + red p, greenSum := greenSum s + green p,
          blueSum := blueSum s + blue p, brightPixels := brightPixels s + 1\<rparr>
      else if brightness p > Fin 25 then
        s\<lparr>dimRedSum := dimRedSum s + red p, dimGreenSum := dimGreenSum s + green p,
          dimBlueSum := dimBlueSum s + blue p, dimPixels := dimPixels s + 1\<rparr>
      else if brightness p > Fin 10 then
        s\<lparr>veryDimRedSum := veryDimRedSum s + red p,
          veryDimGreenSum := veryDimGreenSum s + green p,
          veryDimBlueSum := veryDimBlueSum s + blue p,
          veryDimPixels := veryDimPixels s + 1\<rparr>
      else s)"

fun analyzePixels :: "pixel list \<Rightarrow> buckets \<Rightarrow> buckets" where
  "analyzePixels [] s = s"
| "analyzePixels (p # data) s = analyzePixels data (addPixel p s)"

fun overallSums :: "pixel list \<Rightarrow> nat \<times> nat \<times> nat \<Rightarrow> nat \<times> nat \<times> nat" where
  \<comment> \<open>the second loop: overallRed, overallGreen, overallBlue\<close>
  "overallSums [] t = t"
| "overallSums (p # data) (overallRed, overallGreen, overallBlue) =
     overallSums data (overallRed + red p, overallGreen + green p, overallBlue + blue p)"

definition average :: "nat \<Rightarrow> nat \<Rightarrow> number" where
  "average s n = Fin (of_nat s) / Fin (of_nat n)"

definition brightGreen :: "number \<Rightarrow> number \<Rightarrow> number \<Rightarrow> bool" where
  "brightGreen avgRed avgGreen avgBlue \<longleftrightarrow> avgGreen > avgRed + Fin 8 \<and> avgGreen > avgBlue + Fin 8"

definition brightRed :: "number \<Rightarrow> number \<Rightarrow> number \<Rightarrow> bool" where
  "brightRed avgRed avgGreen avgBlue \<longleftrightarrow> avgRed > avgGreen + Fin 20 \<and> avgRed > avgBlue + Fin 20"

definition brightYellow :: "number \<Rightarrow> number \<Rightarrow> number \<Rightarrow> bool" where
  "brightYellow avgRed avgGreen avgBlue \<longleftrightarrow> avgRed > Fin 130 \<and> avgGreen > Fin 100 \<and> avgBlue < Fin 100"

definition brightRules :: "number \<Rightarrow> number \<Rightarrow> number \<Rightarrow> string option" where
  \<comment> \<open>the conditional on the bright averages; None where it returns nothing\<close>
  "brightRules avgRed avgGreen avgBlue =
     (if brightGreen avgRed avgGreen avgBlue then Some ''Green''
      else if brightRed avgRed avgGreen avgBlue then Some ''Red''
      else if brightYellow avgRed avgGreen avgBlue then Some ''Yellow''
      else None)"

definition dimGreen :: "number \<Rightarrow> number \<Rightarrow> number \<Rightarrow> bool" where
  "dimGreen dimAvgRed dimAvgGreen dimAvgBlue \<longleftrightarrow>
     dimAvgGreen > dimAvgRed + Fin 3 \<and> dimAvgGreen > dimAvgBlue + Fin 3"

definition dimRed :: "number \<Rightarrow> number \<Rightarrow> number \<Rightarrow> bool" where
  "dimRed dimAvgRed dimAvgGreen dimAvgBlue \<longleftrightarrow>
     dimAvgRed > dimAvgGreen + Fin 8 \<and> dimAvgRed > dimAvgBlue + Fin 8"

definition dimYellow :: "number \<Rightarrow> number \<Rightarrow> number \<Rightarrow> bool" where
  "dimYellow dimAvgRed dimAvgGreen dimAvgBlue \<longleftrightarrow>
     dimAvgRed > Fin 60 \<and> dimAvgGreen > Fin 45 \<and> dimAvgBlue < Fin 60"

definition dimRules :: "number \<Rightarrow> number \<Rightarrow> number \<Rightarrow> string option" where
  "dimRules dimAvgRed dimAvgGreen dimAvgBlue =
     (if dimGreen dimAvgRed dimAvgGreen dimAvgBlue then Some ''Green''
      else if dimRed dimAvgRed dimAvgGreen dimAvgBlue then Some ''Red''
      else if dimYellow dimAvgRed dimAvgGreen dimAvgBlue then Some ''Yellow''
      else None)"

definition veryDimGreen :: "number \<Rightarrow> number \<Rightarrow> number \<Rightarrow> bool" where
  "veryDimGreen veryDimAvgRed veryDimAvgGreen veryDimAvgBlue \<longleftrightarrow>
     veryDimAvgGreen > veryDimAvgRed + Fin 1 \<and> veryDimAvgGreen > veryDimAvgBlue + Fin 1
     \<and> veryDimAvgGreen > Fin 15"

definition veryDimRed :: "number \<Rightarrow> number \<Rightarrow> number \<Rightarrow> bool" where
  "veryDimRed veryDimAvgRed veryDimAvgGreen veryDimAvgBlue \<longleftrightarrow>
     veryDimAvgRed > veryDimAvgGreen + Fin 3 \<and> veryDimAvgRed > veryDimAvgBlue + Fin 3"

definition veryDimYellow :: "number \<Rightarrow> number \<Rightarrow> number \<Rightarrow> bool" where
  "veryDimYellow veryDimAvgRed veryDimAvgGreen veryDimAvgBlue \<longleftrightarrow>
     veryDimAvgRed > Fin 30 \<and> veryDimAvgGreen > Fin 25 \<and> veryDimAvgBlue < Fin 40"

definition veryDimRules :: "number \<Rightarrow> number \<Rightarrow> number \<Rightarrow> string option" where
  "veryDimRules veryDimAvgRed veryDimAvgGreen veryDimAvgBlue =
     (if veryDimGreen veryDimAvgRed veryDimAvgGreen veryDimAvgBlue then Some ''Green''
      else if veryDimRed veryDimAvgRed veryDimAvgGreen veryDimAvgBlue then Some ''Red''
      else if veryDimYellow veryDimAvgRed veryDimAvgGreen veryDimAvgBlue then Some ''Yellow''
      else None)"

definition greenish :: "number \<Rightarrow> number \<Rightarrow> number \<Rightarrow> bool" where
  "greenish avgOverallRed avgOverallGreen avgOverallBlue \<longleftrightarrow>
     avgOverallGreen > avgOverallRed + Fin 1 \<and> avgOverallGreen > avgOverallBlue + Fin 1
     \<and> avgOverallGreen > Fin 20"

definition overallCheck :: "pixel list \<Rightarrow> string" where
  \<comment> \<open>the last resort: the averages over every pixel of the region\<close>
  "overallCheck data =
     (let totalPixels = length data;
          (overallRed, overallGreen, overallBlue) = overallSums data (0, 0, 0)
      in if greenish (average overallRed totalPixels) (average overallGreen totalPixels)
              (average overallBlue totalPixels)
         then ''Green'' else ''Unknown'')"

definition analyzeTrafficLightColor :: "pixel list option \<Rightarrow> string" where
  "analyzeTrafficLightColor imageData =
     (case imageData of
        None \<Rightarrow> ''Unknown''
      | Some data \<Rightarrow>
          let s = analyzePixels data noSums;
              bright = (if brightPixels s > 0
                then brightRules (average (redSum s) (brightPixels s))
                       (average (greenSum s) (brightPixels s)) (average (blueSum s) (brightPixels s))
                else None);
              dim = (if dimPixels s > 0
                then dimRules (average (dimRedSum s) (dimPixels s))
                       (average (dimGreenSum s) (dimPixels s)) (average (dimBlueSum s) (dimPixels s))
                else None);
              veryDim = (if veryDimPixels s > 0
                then veryDimRules (average (veryDimRedSum s) (veryDimPixels s))
                       (average (veryDimGreenSum s) (veryDimPixels s))
                       (average (veryDimBlueSum s) (veryDimPixels s))
                else None)
          in case bright of Some label \<Rightarrow> label
             | None \<Rightarrow> (case dim of Some label \<Rightarrow> label
             | None \<Rightarrow> (case veryDim of Some label \<Rightarrow> label
             | None \<Rightarrow> overallCheck data)))"

subsection \<open>The brightness bands and their means, as the design describes them\<close>

text \<open>
  The design speaks of three disjoint bands of pixels, bright (brightness above 60), dim
  (above 25, at most 60) and very dim (above 10, at most 25), and of the arithmetic means
  of R, G and B over exactly the pixels of a band. These definitions follow those words;
  the loop above is shown to compute them.
\<close>

definition brightBucket :: "pixel list \<Rightarrow> pixel list" where
  "brightBucket data = filter (\<lambda>p. brightness p > Fin 60) data"

definition dimBucket :: "pixel list \<Rightarrow> pixel list" where
  "dimBucket data = filter (\<lambda>p. brightness p > Fin 25 \<and> brightness p \<le> Fin 60) data"

definition veryDimBucket :: "pixel list \<Rightarrow> pixel list" where
  "veryDimBucket data = filter (\<lambda>p. brightness p > Fin 10 \<and> brightness p \<le> Fin 25) data"

definition meanOf :: "(pixel \<Rightarrow> nat) \<Rightarrow> pixel list \<Rightarrow> number" where
  "meanOf channel ps = average (sum_list (map channel ps)) (length ps)"

definition bucketLabel ::
  "(number \<Rightarrow> number \<Rightarrow> number \<Rightarrow> string option) \<Rightarrow> pixel list \<Rightarrow> string option" where
  \<comment> \<open>the label a band yields under its rules: none when the band is empty or its means
      match no rule\<close>
  "bucketLabel rules ps =
     (if ps = [] then None else rules (meanOf red ps) (meanOf green ps) (meanOf blue ps))"

definition holdsOn :: "(number \<Rightarrow> number \<Rightarrow> number \<Rightarrow> bool) \<Rightarrow> pixel list \<Rightarrow> bool" where
  \<comment> \<open>a band satisfies a colour rule: it is non-empty and its means fulfil the rule\<close>
  "holdsOn rule ps \<longleftrightarrow> ps \<noteq> [] \<and> rule (meanOf red ps) (meanOf green ps) (meanOf blue ps)"

definition brightMatch :: "pixel list \<Rightarrow> bool" where
  \<comment> \<open>the bright band of the region is non-empty and matches one of the bright rules;
      likewise for the dim and the very dim band\<close>
  "brightMatch data \<longleftrightarrow> holdsOn brightGreen (brightBucket data)
     \<or> holdsOn brightRed (brightBucket data) \<or> holdsOn brightYellow (brightBucket data)"

definition dimMatch :: "pixel list \<Rightarrow> bool" where
  "dimMatch data \<longleftrightarrow> holdsOn dimGreen (dimBucket data)
     \<or> holdsOn dimRed (dimBucket data) \<or> holdsOn dimYellow (dimBucket data)"

definition veryDimMatch :: "pixel list \<Rightarrow> bool" where
  "veryDimMatch data \<longleftrightarrow> holdsOn veryDimGreen (veryDimBucket data)
     \<or> holdsOn veryDimRed (veryDimBucket data) \<or> holdsOn veryDimYellow (veryDimBucket data)"

definition roundHeight :: "PoleHeight \<Rightarrow> PoleHeight" where
  \<comment> \<open>the returned record: the height rounded to one decimal, the rest as it is\<close>
  "roundHeight p = p\<lparr>estimatedHeight := Math_round (estimatedHeight p * Fin 10) / Fin 10\<rparr>"

definition opaque :: "8 word \<times> 8 word \<times> 8 word \<Rightarrow> pixel" where
  \<comment> \<open>the pixel of the given R, G, B with alpha 255: what a function that reads no alpha
      sees of any pixel with these three bytes\<close>
  "opaque t = (case t of (r, g, b) \<Rightarrow> (r, g, b, 255))"

section \<open>Facts about numbers\<close>

lemma double_not_NaN: "double x \<noteq> NaN"
  by (simp add: double_def Let_def)

text \<open>
  Rounding leaves an integer below 2 ^ 53 as it is, so a sum of bytes accumulated with
  \<open>+=\<close> on numbers is the natural sum, as long as it stays below 2 ^ 53.
\<close>

lemma roundTiesToEven_int: "roundTiesToEven (of_int k) = k"
  by (simp add: roundTiesToEven_def)

lemma double_of_nat:
  assumes "n < 2 ^ 53"
  shows "double (of_nat n) = Fin (of_nat n)"
proof (cases "n = 0")
  case True
  then show ?thesis by (simp add: double_def)
next
  case False
  define b where "b = bitlen (int n)"
  have pos: "0 < int n" using False by simp
  from bitlen_bounds [OF pos] have lo: "2 ^ nat (b - 1) \<le> int n" and hi: "int n < 2 ^ nat b"
    by (simp_all add: b_def)
  have b1: "1 \<le> b"
    using pos by (simp add: b_def bitlen_alt_def)
  have "(2::int) ^ nat (b - 1) < 2 ^ 53"
    using lo assms by (metis le_less_trans of_nat_less_iff of_nat_numeral of_nat_power)
  then have "nat (b - 1) < 53"
    using power_strict_increasing_iff [of "2::int" "nat (b - 1)" 53] by simp
  then have b53: "b \<le> 53"
    by simp
  define k where "k = nat (53 - b)"
  have q: "quotient_of (of_nat n) = (int n, 1)"
    by (simp add: of_nat_rat quotient_of_Fract normalize_stable)
  have p2: "pow2 (b - 1) = 2 ^ nat (b - 1)"
    using b1 by (simp add: pow2_def)
  have "(2::rat) ^ nat (b - 1) \<le> of_nat n"
    using lo by (metis of_int_le_iff of_int_numeral of_int_of_nat_eq of_int_power)
  moreover have "bitlen 1 = 1"
    by (simp add: bitlen_alt_def)
  ultimately have il: "ilog2 (of_nat n) = b - 1"
    by (simp add: ilog2_def q b_def [symmetric] p2 Let_def)
  have u: "pow2 (b - 53) = 1 / 2 ^ k"
    using b53 by (auto simp: pow2_def k_def)
  have "(of_nat n :: rat) * 2 ^ k = of_int (int n * 2 ^ k)"
    by simp
  then have r: "roundTiesToEven (of_nat n * 2 ^ k) = int n * 2 ^ k"
    by (simp only: roundTiesToEven_int)
  show ?thesis
    using False b53 b1 by (simp add: double_def il Let_def u r)
qed

lemma sum_exact:
  assumes "m + k < 2 ^ 53"
  shows "Fin (of_nat m) + Fin (of_nat k) = Fin (of_nat (m + k))"
  using double_of_nat [OF assms] by simp

lemma accumulate_exact:
  assumes "a + sum_list vs < 2 ^ 53"
  shows "foldl (\<lambda>acc v. acc + Fin (of_nat v)) (Fin (of_nat a)) vs = Fin (of_nat (a + sum_list vs))"
  using assms
proof (induction vs arbitrary: a)
  case Nil
  show ?case by simp
next
  case (Cons v vs)
  from Cons.prems have "a + v < 2 ^ 53"
    by simp
  then have "Fin (of_nat a) + Fin (of_nat v) = Fin (of_nat (a + v))"
    by (rule sum_exact)
  moreover from Cons.prems have "(a + v) + sum_list vs < 2 ^ 53"
    by (simp add: add.assoc)
  ultimately show ?case
    using Cons.IH [of "a + v"] by (simp add: add.assoc)
qed

lemma literal_07: "double (7 / 10) = Fin (3152519739159347 / 4503599627370496)"
  by code_simp

lemma literal_04: "double (4 / 10) = Fin (3602879701896397 / 9007199254740992)"
  by code_simp

lemma literal_01: "double (1 / 10) = Fin (3602879701896397 / 36028797018963968)"
  by code_simp

lemma literal_002: "double (2 / 100) = Fin (5764607523034235 / 288230376151711744)"
  by code_simp

lemma divide_pos_not_NaN: "0 < h \<Longrightarrow> x \<noteq> NaN \<Longrightarrow> x / Fin h \<noteq> NaN"
  by (cases x) (simp_all add: double_not_NaN)

lemma divide_zero: "x / Fin 0 = PInf \<or> x / Fin 0 = NInf \<or> x / Fin 0 = NaN"
  by (cases x) simp_all

lemma abs_divide_zero: "Math_abs x / Fin 0 = PInf \<or> Math_abs x / Fin 0 = NaN"
  by (cases x) simp_all

section \<open>Properties of the pole height estimate\<close>

lemma positionRatio_not_NaN:
  assumes "0 < h"
  shows "positionRatio (Fin a) (Fin b) (Fin h) \<noteq> NaN"
proof -
  have "Fin a + Fin b \<noteq> NaN"
    by (simp add: double_not_NaN)
  then have "(Fin a + Fin b) / Fin 2 \<noteq> NaN"
    by (rule divide_pos_not_NaN [rotated]) simp
  then show ?thesis
    unfolding positionRatio_def Let_def by (rule divide_pos_not_NaN [OF assms])
qed

lemma ranges_exhaustive:
  "r \<noteq> NaN \<Longrightarrow>
     double (7 / 10) < r \<or> (double (4 / 10) < r \<and> r \<le> double (7 / 10)) \<or> r \<le> double (4 / 10)"
  by (cases r) (auto simp: literal_07 literal_04 [simplified])

lemma scenario:
  "estimatePoleHeight (Fin 480) (Fin 100) (Fin 520) (Fin 140) (Fin 1000) (Fin 1000) =
     \<lparr>estimatedHeight = double (61 / 10), confidence = double (6 / 10),
      referenceUsed = ''Highway overpass''\<rparr>"
  by code_simp

lemma baseEstimate_special:
  "baseEstimate PInf = \<lparr>estimatedHeight = double (45 / 10), confidence = double (8 / 10),
     referenceUsed = ''Standard urban intersection''\<rparr>"
  "baseEstimate NInf = \<lparr>estimatedHeight = double (61 / 10), confidence = double (6 / 10),
     referenceUsed = ''Highway overpass''\<rparr>"
  "baseEstimate NaN = \<lparr>estimatedHeight = double (61 / 10), confidence = double (6 / 10),
     referenceUsed = ''Highway overpass''\<rparr>"
  by (simp_all add: baseEstimate_def literal_07 literal_04 [simplified])

lemma sizeAdjust_special:
  "sizeAdjust PInf p = p\<lparr>estimatedHeight := estimatedHeight p * double (9 / 10),
     confidence := Math_min (confidence p + double (1 / 10)) (double (9 / 10))\<rparr>"
  "sizeAdjust NaN p = p"
  by (simp_all add: sizeAdjust_def literal_01 literal_002 [simplified])

lemma zero_height_values:
  "Math_round (double (45 / 10) * double (9 / 10) * Fin 10) / Fin 10 = double (41 / 10)"
  "Math_round (double (61 / 10) * double (9 / 10) * Fin 10) / Fin 10 = double (55 / 10)"
  "Math_round (double (45 / 10) * Fin 10) / Fin 10 = double (45 / 10)"
  "Math_round (double (61 / 10) * Fin 10) / Fin 10 = double (61 / 10)"
  "Math_min (double (8 / 10) + double (1 / 10)) (double (9 / 10)) = double (9 / 10)"
  "Math_min (double (6 / 10) + double (1 / 10)) (double (9 / 10)) = double (7 / 10)"
  by code_simp+

lemma confidence_baseEstimate:
  "confidence (baseEstimate r) = double (8 / 10) \<or> confidence (baseEstimate r) = double (7 / 10)
   \<or> confidence (baseEstimate r) = double (6 / 10)"
  by (simp add: baseEstimate_def)

lemma confidence_unadjusted:
  "double (5 / 10) \<le> double (8 / 10) \<and> double (8 / 10) \<le> double (9 / 10)"
  "double (5 / 10) \<le> double (7 / 10) \<and> double (7 / 10) \<le> double (9 / 10)"
  "double (5 / 10) \<le> double (6 / 10) \<and> double (6 / 10) \<le> double (9 / 10)"
  by code_simp+

lemma confidence_raised:
  "double (5 / 10) \<le> Math_min (double (8 / 10) + double (1 / 10)) (double (9 / 10))
   \<and> Math_min (double (8 / 10) + double (1 / 10)) (double (9 / 10)) \<le> double (9 / 10)"
  "double (5 / 10) \<le> Math_min (double (7 / 10) + double (1 / 10)) (double (9 / 10))
   \<and> Math_min (double (7 / 10) + double (1 / 10)) (double (9 / 10)) \<le> double (9 / 10)"
  "double (5 / 10) \<le> Math_min (double (6 / 10) + double (1 / 10)) (double (9 / 10))
   \<and> Math_min (double (6 / 10) + double (1 / 10)) (double (9 / 10)) \<le> double (9 / 10)"
  by code_simp+

lemma confidence_lowered:
  "double (5 / 10) \<le> Math_max (double (8 / 10) - double (1 / 10)) (double (5 / 10))
   \<and> Math_max (double (8 / 10) - double (1 / 10)) (double (5 / 10)) \<le> double (9 / 10)"
  "double (5 / 10) \<le> Math_max (double (7 / 10) - double (1 / 10)) (double (5 / 10))
   \<and> Math_max (double (7 / 10) - double (1 / 10)) (double (5 / 10)) \<le> double (9 / 10)"
  "double (5 / 10) \<le> Math_max (double (6 / 10) - double (1 / 10)) (double (5 / 10))
   \<and> Math_max (double (6 / 10) - double (1 / 10)) (double (5 / 10)) \<le> double (9 / 10)"
  by code_simp+

lemma confidence_sizeAdjust:
  assumes "confidence p = double (8 / 10) \<or> confidence p = double (7 / 10)
    \<or> confidence p = double (6 / 10)"
  shows "double (5 / 10) \<le> confidence (sizeAdjust s p)
    \<and> confidence (sizeAdjust s p) \<le> double (9 / 10)"
proof (cases "double (1 / 10) < s")
  case True
  then have "confidence (sizeAdjust s p) =
      Math_min (confidence p + double (1 / 10)) (double (9 / 10))"
    by (simp add: sizeAdjust_def)
  with assms confidence_raised show ?thesis
    by metis
next
  case False
  show ?thesis
  proof (cases "s < double (2 / 100)")
    case True
    with False have "confidence (sizeAdjust s p) =
        Math_max (confidence p - double (1 / 10)) (double (5 / 10))"
      by (simp add: sizeAdjust_def)
    with assms confidence_lowered show ?thesis
      by metis
  next
    case lower: False
    with False have "confidence (sizeAdjust s p) = confidence p"
      by (simp add: sizeAdjust_def)
    with assms confidence_unadjusted show ?thesis
      by metis
  qed
qed

text \<open>
  Claim C1, as the specification states it: for every bounding box, estimate with
  imageHeight = 0 fails with an InvalidGeometry error and produces no estimate.

  The function has no guard and no statement that throws: both ratios are quotients by
  zero, which are Infinity or NaN, and the two conditionals run on them. The box
  (480, 100, 520, 140) with image height 0 gets position ratio and size ratio Infinity,
  and the estimate 4.1 m, confidence 0.9, reference "Standard urban intersection" is
  returned.
\<close>

theorem estimate_zero_height_counterexample:
  "estimatePoleHeight (Fin 480) (Fin 100) (Fin 520) (Fin 140) (Fin 1000) (Fin 0) =
     \<lparr>estimatedHeight = double (41 / 10), confidence = double (9 / 10),
      referenceUsed = ''Standard urban intersection''\<rparr>"
  by code_simp

text \<open>
  Claim C1, amended: for every bounding box, estimate with imageHeight = 0 reports no
  error; it returns one of four estimates, according to whether the position ratio is
  Infinity (reference "Standard urban intersection") or not ("Highway overpass") and
  whether the size ratio is Infinity (size adjustment applied) or NaN (not applied).
\<close>

theorem estimate_zero_height:
  "estimatePoleHeight x1 y1 x2 y2 imageWidth (Fin 0) \<in>
     {\<lparr>estimatedHeight = double (41 / 10), confidence = double (9 / 10),
       referenceUsed = ''Standard urban intersection''\<rparr>,
      \<lparr>estimatedHeight = double (45 / 10), confidence = double (8 / 10),
       referenceUsed = ''Standard urban intersection''\<rparr>,
      \<lparr>estimatedHeight = double (55 / 10), confidence = double (7 / 10),
       referenceUsed = ''Highway overpass''\<rparr>,
      \<lparr>estimatedHeight = double (61 / 10), confidence = double (6 / 10),
       referenceUsed = ''Highway overpass''\<rparr>}"
  using divide_zero [of "(y1 + y2) / Fin 2"] abs_divide_zero [of "y2 - y1"]
  by (auto simp: estimatePoleHeight_def positionRatio_def sizeRatio_def Let_def
      baseEstimate_special [simplified] sizeAdjust_special [simplified]
      zero_height_values [simplified])

lemma heights:
  "Math_round (double (45 / 10) * Fin 10) / Fin 10 = double (45 / 10)"
  "Math_round (double (52 / 10) * Fin 10) / Fin 10 = double (52 / 10)"
  "Math_round (double (61 / 10) * Fin 10) / Fin 10 = double (61 / 10)"
  "Math_round (double (45 / 10) * double (9 / 10) * Fin 10) / Fin 10 = double (41 / 10)"
  "Math_round (double (52 / 10) * double (9 / 10) * Fin 10) / Fin 10 = double (47 / 10)"
  "Math_round (double (61 / 10) * double (9 / 10) * Fin 10) / Fin 10 = double (55 / 10)"
  "Math_round (double (45 / 10) * double (12 / 10) * Fin 10) / Fin 10 = double (54 / 10)"
  "Math_round (double (52 / 10) * double (12 / 10) * Fin 10) / Fin 10 = double (62 / 10)"
  "Math_round (double (61 / 10) * double (12 / 10) * Fin 10) / Fin 10 = double (73 / 10)"
  by code_simp+

lemma confidences:
  "Math_min (double (8 / 10) + double (1 / 10)) (double (9 / 10)) = double (9 / 10)"
  "Math_min (double (7 / 10) + double (1 / 10)) (double (9 / 10)) = double (7 / 10) + double (1 / 10)"
  "Math_min (double (6 / 10) + double (1 / 10)) (double (9 / 10)) = double (7 / 10)"
  "Math_max (double (8 / 10) - double (1 / 10)) (double (5 / 10)) = double (8 / 10) - double (1 / 10)"
  "Math_max (double (7 / 10) - double (1 / 10)) (double (5 / 10)) = double (6 / 10)"
  "Math_max (double (6 / 10) - double (1 / 10)) (double (5 / 10)) = double (5 / 10)"
  by code_simp+

lemma estimate_composed:
  "estimatePoleHeight x1 y1 x2 y2 w h =
     roundHeight (sizeAdjust (Math_abs (y2 - y1) / h) (baseEstimate ((y1 + y2) / Fin 2 / h)))"
  by (simp add: estimatePoleHeight_def roundHeight_def positionRatio_def sizeRatio_def Let_def)

lemma base_near:
  "double (7 / 10) < r \<Longrightarrow> baseEstimate r =
     \<lparr>estimatedHeight = double (45 / 10), confidence = double (8 / 10),
      referenceUsed = ''Standard urban intersection''\<rparr>"
  by (simp add: baseEstimate_def)

lemma base_major:
  "double (4 / 10) < r \<Longrightarrow> r \<le> double (7 / 10) \<Longrightarrow> baseEstimate r =
     \<lparr>estimatedHeight = double (52 / 10), confidence = double (7 / 10),
      referenceUsed = ''Highway or major road''\<rparr>"
  by (cases r) (auto simp: baseEstimate_def literal_07)

lemma base_over:
  "r \<le> double (4 / 10) \<Longrightarrow> baseEstimate r =
     \<lparr>estimatedHeight = double (61 / 10), confidence = double (6 / 10),
      referenceUsed = ''Highway overpass''\<rparr>"
  by (cases r) (auto simp: baseEstimate_def literal_07 literal_04 [simplified])

lemma outcome_near:
  "roundHeight (sizeAdjust s
       \<lparr>estimatedHeight = double (45 / 10), confidence = double (8 / 10),
         referenceUsed = ''Standard urban intersection''\<rparr>) =
     (if double (1 / 10) < s then
       \<lparr>estimatedHeight = double (41 / 10), confidence = double (9 / 10),
         referenceUsed = ''Standard urban intersection''\<rparr>
      else if s < double (2 / 100) then
       \<lparr>estimatedHeight = double (54 / 10), confidence = double (8 / 10) - double (1 / 10),
         referenceUsed = ''Standard urban intersection''\<rparr>
      else
       \<lparr>estimatedHeight = double (45 / 10), confidence = double (8 / 10),
         referenceUsed = ''Standard urban intersection''\<rparr>)"
  by (simp add: roundHeight_def sizeAdjust_def heights [simplified] confidences [simplified])

lemma outcome_major:
  "roundHeight (sizeAdjust s
       \<lparr>estimatedHeight = double (52 / 10), confidence = double (7 / 10),
         referenceUsed = ''Highway or major road''\<rparr>) =
     (if double (1 / 10) < s then
       \<lparr>estimatedHeight = double (47 / 10), confidence = double (7 / 10) + double (1 / 10),
         referenceUsed = ''Highway or major road''\<rparr>
      else if s < double (2 / 100) then
       \<lparr>estimatedHeight = double (62 / 10), confidence = double (6 / 10),
         referenceUsed = ''Highway or major road''\<rparr>
      else
       \<lparr>estimatedHeight = double (52 / 10), confidence = double (7 / 10),
         referenceUsed = ''Highway or major road''\<rparr>)"
  by (simp add: roundHeight_def sizeAdjust_def heights [simplified] confidences [simplified])

lemma outcome_over:
  "roundHeight (sizeAdjust s
       \<lparr>estimatedHeight = double (61 / 10), confidence = double (6 / 10),
         referenceUsed = ''Highway overpass''\<rparr>) =
     (if double (1 / 10) < s then
       \<lparr>estimatedHeight = double (55 / 10), confidence = double (7 / 10),
         referenceUsed = ''Highway overpass''\<rparr>
      else if s < double (2 / 100) then
       \<lparr>estimatedHeight = double (73 / 10), confidence = double (5 / 10),
         referenceUsed = ''Highway overpass''\<rparr>
      else
       \<lparr>estimatedHeight = double (61 / 10), confidence = double (6 / 10),
         referenceUsed = ''Highway overpass''\<rparr>)"
  by (simp add: roundHeight_def sizeAdjust_def heights [simplified] confidences [simplified])

text \<open>
  Claim C6: for every box and every positive image height, the base result of estimate
  is fixed by positionRatio = ((ymin + ymax) / 2) / imageHeight, the first matching
  range winning: above 0.7 it is 4.5 m, confidence 0.8, "Standard urban intersection";
  in (0.4, 0.7] it is 5.2 m, confidence 0.7, "Highway or major road"; at most 0.4 it is
  6.1 m, confidence 0.6, "Highway overpass"; every ratio falls in one of the three
  ranges. The estimate returned is that base result where the size ratio
  |ymax - ymin| / imageHeight calls for no adjustment, and the base result adjusted
  (height times 0.9 or 1.2, rounded to one decimal; confidence plus or minus 0.1 within
  its bounds) where it does: nine outcomes in all. In particular the box
  (480, 100, 520, 140) in a 1000 by 1000 image gets height 6.1, confidence 0.6,
  "Highway overpass".
\<close>

theorem estimate_by_position:
  assumes "0 < h"
  shows
  "let r = (Fin y1 + Fin y2) / Fin 2 / Fin h;
       s = Math_abs (Fin y2 - Fin y1) / Fin h;
       e = estimatePoleHeight x1 (Fin y1) x2 (Fin y2) w (Fin h)
   in (double (7 / 10) < r \<or> (double (4 / 10) < r \<and> r \<le> double (7 / 10))
         \<or> r \<le> double (4 / 10))
    \<and> (double (7 / 10) < r \<longrightarrow>
         baseEstimate r =
           \<lparr>estimatedHeight = double (45 / 10), confidence = double (8 / 10),
          referenceUsed = ''Standard urban intersection''\<rparr>
       \<and> (double (1 / 10) < s \<longrightarrow> e =
           \<lparr>estimatedHeight = double (41 / 10), confidence = double (9 / 10),
          referenceUsed = ''Standard urban intersection''\<rparr>)
       \<and> (\<not> double (1 / 10) < s \<and> s < double (2 / 100) \<longrightarrow> e =
           \<lparr>estimatedHeight = double (54 / 10), confidence = double (8 / 10) - double (1 / 10),
          referenceUsed = ''Standard urban intersection''\<rparr>)
       \<and> (\<not> double (1 / 10) < s \<and> \<not> s < double (2 / 100) \<longrightarrow> e =
           \<lparr>estimatedHeight = double (45 / 10), confidence = double (8 / 10),
          referenceUsed = ''Standard urban intersection''\<rparr>))
    \<and> (double (4 / 10) < r \<and> r \<le> double (7 / 10) \<longrightarrow>
         baseEstimate r =
           \<lparr>estimatedHeight = double (52 / 10), confidence = double (7 / 10),
          referenceUsed = ''Highway or major road''\<rparr>
       \<and> (double (1 / 10) < s \<longrightarrow> e =
           \<lparr>estimatedHeight = double (47 / 10), confidence = double (7 / 10) + double (1 / 10),
          referenceUsed = ''Highway or major road''\<rparr>)
       \<and> (\<not> double (1 / 10) < s \<and> s < double (2 / 100) \<longrightarrow> e =
           \<lparr>estimatedHeight = double (62 / 10), confidence = double (6 / 10),
          referenceUsed = ''Highway or major road''\<rparr>)
       \<and> (\<not> double (1 / 10) < s \<and> \<not> s < double (2 / 100) \<longrightarrow> e =
           \<lparr>estimatedHeight = double (52 / 10), confidence = double (7 / 10),
          referenceUsed = ''Highway or major road''\<rparr>))
    \<and> (r \<le> double (4 / 10) \<longrightarrow>
         baseEstimate r =
           \<lparr>estimatedHeight = double (61 / 10), confidence = double (6 / 10),
          referenceUsed = ''Highway overpass''\<rparr>
       \<and> (double (1 / 10) < s \<longrightarrow> e =
           \<lparr>estimatedHeight = double (55 / 10), confidence = double (7 / 10),
          referenceUsed = ''Highway overpass''\<rparr>)
       \<and> (\<not> double (1 / 10) < s \<and> s < double (2 / 100) \<longrightarrow> e =
           \<lparr>estimatedHeight = double (73 / 10), confidence = double (5 / 10),
          referenceUsed = ''Highway overpass''\<rparr>)
       \<and> (\<not> double (1 / 10) < s \<and> \<not> s < double (2 / 100) \<longrightarrow> e =
           \<lparr>estimatedHeight = double (61 / 10), confidence = double (6 / 10),
          referenceUsed = ''Highway overpass''\<rparr>))
    \<and> estimatePoleHeight (Fin 480) (Fin 100) (Fin 520) (Fin 140) (Fin 1000) (Fin 1000) =
        \<lparr>estimatedHeight = double (61 / 10), confidence = double (6 / 10),
         referenceUsed = ''Highway overpass''\<rparr>"
proof -
  define r where "r = (Fin y1 + Fin y2) / Fin 2 / Fin h"
  define s where "s = Math_abs (Fin y2 - Fin y1) / Fin h"
  define e where "e = estimatePoleHeight x1 (Fin y1) x2 (Fin y2) w (Fin h)"
  have e: "e = roundHeight (sizeAdjust s (baseEstimate r))"
    unfolding e_def r_def s_def by (rule estimate_composed)
  have "r \<noteq> NaN"
    using positionRatio_not_NaN [OF assms, of y1 y2]
    by (simp add: positionRatio_def r_def)
  then have ranges: "double (7 / 10) < r \<or> (double (4 / 10) < r \<and> r \<le> double (7 / 10))
      \<or> r \<le> double (4 / 10)"
    by (rule ranges_exhaustive)
  have near: "(double (7 / 10) < r \<longrightarrow>
         baseEstimate r =
           \<lparr>estimatedHeight = double (45 / 10), confidence = double (8 / 10),
          referenceUsed = ''Standard urban intersection''\<rparr>
       \<and> (double (1 / 10) < s \<longrightarrow> e =
           \<lparr>estimatedHeight = double (41 / 10), confidence = double (9 / 10),
          referenceUsed = ''Standard urban intersection''\<rparr>)
       \<and> (\<not> double (1 / 10) < s \<and> s < double (2 / 100) \<longrightarrow> e =
           \<lparr>estimatedHeight = double (54 / 10), confidence = double (8 / 10) - double (1 / 10),
          referenceUsed = ''Standard urban intersection''\<rparr>)
       \<and> (\<not> double (1 / 10) < s \<and> \<not> s < double (2 / 100) \<longrightarrow> e =
           \<lparr>estimatedHeight = double (45 / 10), confidence = double (8 / 10),
          referenceUsed = ''Standard urban intersection''\<rparr>))"
    using base_near [of r] outcome_near [of s] by (simp add: e)
  have major: "(double (4 / 10) < r \<and> r \<le> double (7 / 10) \<longrightarrow>
         baseEstimate r =
           \<lparr>estimatedHeight = double (52 / 10), confidence = double (7 / 10),
          referenceUsed = ''Highway or major road''\<rparr>
       \<and> (double (1 / 10) < s \<longrightarrow> e =
           \<lparr>estimatedHeight = double (47 / 10), confidence = double (7 / 10) + double (1 / 10),
          referenceUsed = ''Highway or major road''\<rparr>)
       \<and> (\<not> double (1 / 10) < s \<and> s < double (2 / 100) \<longrightarrow> e =
           \<lparr>estimatedHeight = double (62 / 10), confidence = double (6 / 10),
          referenceUsed = ''Highway or major road''\<rparr>)
       \<and> (\<not> double (1 / 10) < s \<and> \<not> s < double (2 / 100) \<longrightarrow> e =
           \<lparr>estimatedHeight = double (52 / 10), confidence = double (7 / 10),
          referenceUsed = ''Highway or major road''\<rparr>))"
    using base_major [of r] outcome_major [of s] by (simp add: e)
  have over: "(r \<le> double (4 / 10) \<longrightarrow>
         baseEstimate r =
           \<lparr>estimatedHeight = double (61 / 10), confidence = double (6 / 10),
          referenceUsed = ''Highway overpass''\<rparr>
       \<and> (double (1 / 10) < s \<longrightarrow> e =
           \<lparr>estimatedHeight = double (55 / 10), confidence = double (7 / 10),
          referenceUsed = ''Highway overpass''\<rparr>)
       \<and> (\<not> double (1 / 10) < s \<and> s < double (2 / 100) \<longrightarrow> e =
           \<lparr>estimatedHeight = double (73 / 10), confidence = double (5 / 10),
          referenceUsed = ''Highway overpass''\<rparr>)
       \<and> (\<not> double (1 / 10) < s \<and> \<not> s < double (2 / 100) \<longrightarrow> e =
           \<lparr>estimatedHeight = double (61 / 10), confidence = double (6 / 10),
          referenceUsed = ''Highway overpass''\<rparr>))"
    using base_over [of r] outcome_over [of s] by (simp add: e)
  from ranges near major over scenario show ?thesis
    unfolding Let_def r_def s_def e_def by (intro conjI)
qed

theorem estimate_by_position_witness:
  "(0::rat) < 1000
   \<and> (Fin 100 + Fin 140) / Fin 2 / Fin 1000 \<le> double (4 / 10)
   \<and> estimatePoleHeight (Fin 480) (Fin 100) (Fin 520) (Fin 140) (Fin 1000) (Fin 1000) =
       \<lparr>estimatedHeight = double (61 / 10), confidence = double (6 / 10),
        referenceUsed = ''Highway overpass''\<rparr>
   \<and> double (7 / 10) < (Fin 750 + Fin 800) / Fin 2 / Fin 1000
   \<and> estimatePoleHeight (Fin 480) (Fin 750) (Fin 520) (Fin 800) (Fin 1000) (Fin 1000) =
       \<lparr>estimatedHeight = double (45 / 10), confidence = double (8 / 10),
        referenceUsed = ''Standard urban intersection''\<rparr>
   \<and> double (4 / 10) < (Fin 400 + Fin 700) / Fin 2 / Fin 1000
   \<and> (Fin 400 + Fin 700) / Fin 2 / Fin 1000 \<le> double (7 / 10)
   \<and> double (1 / 10) < Math_abs (Fin 700 - Fin 400) / Fin 1000
   \<and> estimatePoleHeight (Fin 480) (Fin 400) (Fin 520) (Fin 700) (Fin 1000) (Fin 1000) =
       \<lparr>estimatedHeight = double (47 / 10), confidence = double (7 / 10) + double (1 / 10),
        referenceUsed = ''Highway or major road''\<rparr>
   \<and> double (7 / 10) < (Fin 750 + Fin 760) / Fin 2 / Fin 1000
   \<and> Math_abs (Fin 760 - Fin 750) / Fin 1000 < double (2 / 100)
   \<and> estimatePoleHeight (Fin 480) (Fin 750) (Fin 520) (Fin 760) (Fin 1000) (Fin 1000) =
       \<lparr>estimatedHeight = double (54 / 10), confidence = double (8 / 10) - double (1 / 10),
        referenceUsed = ''Standard urban intersection''\<rparr>"
proof -
  have h: "(0::rat) < 1000" by simp
  have c0: "(Fin 100 + Fin 140) / Fin 2 / Fin 1000 \<le> double (4 / 10)"
    "\<not> double (1 / 10) < Math_abs (Fin 140 - Fin 100) / Fin 1000"
    "\<not> Math_abs (Fin 140 - Fin 100) / Fin 1000 < double (2 / 100)"
    by code_simp+
  from estimate_by_position [OF h, of 100 140 "Fin 480" "Fin 520" "Fin 1000"] c0
  have e0: "estimatePoleHeight (Fin 480) (Fin 100) (Fin 520) (Fin 140) (Fin 1000) (Fin 1000) =
       \<lparr>estimatedHeight = double (61 / 10), confidence = double (6 / 10),
        referenceUsed = ''Highway overpass''\<rparr>"
    unfolding Let_def by blast
  have c1: "double (7 / 10) < (Fin 750 + Fin 800) / Fin 2 / Fin 1000"
    "\<not> double (1 / 10) < Math_abs (Fin 800 - Fin 750) / Fin 1000"
    "\<not> Math_abs (Fin 800 - Fin 750) / Fin 1000 < double (2 / 100)"
    by code_simp+
  from estimate_by_position [OF h, of 750 800 "Fin 480" "Fin 520" "Fin 1000"] c1
  have e1: "estimatePoleHeight (Fin 480) (Fin 750) (Fin 520) (Fin 800) (Fin 1000) (Fin 1000) =
       \<lparr>estimatedHeight = double (45 / 10), confidence = double (8 / 10),
        referenceUsed = ''Standard urban intersection''\<rparr>"
    unfolding Let_def by blast
  have c2: "double (4 / 10) < (Fin 400 + Fin 700) / Fin 2 / Fin 1000"
    "(Fin 400 + Fin 700) / Fin 2 / Fin 1000 \<le> double (7 / 10)"
    "double (1 / 10) < Math_abs (Fin 700 - Fin 400) / Fin 1000"
    by code_simp+
  from estimate_by_position [OF h, of 400 700 "Fin 480" "Fin 520" "Fin 1000"] c2
  have e2: "estimatePoleHeight (Fin 480) (Fin 400) (Fin 520) (Fin 700) (Fin 1000) (Fin 1000) =
       \<lparr>estimatedHeight = double (47 / 10), confidence = double (7 / 10) + double (1 / 10),
        referenceUsed = ''Highway or major road''\<rparr>"
    unfolding Let_def by blast
  have c3: "double (7 / 10) < (Fin 750 + Fin 760) / Fin 2 / Fin 1000"
    "\<not> double (1 / 10) < Math_abs (Fin 760 - Fin 750) / Fin 1000"
    "Math_abs (Fin 760 - Fin 750) / Fin 1000 < double (2 / 100)"
    by code_simp+
  from estimate_by_position [OF h, of 750 760 "Fin 480" "Fin 520" "Fin 1000"] c3
  have e3: "estimatePoleHeight (Fin 480) (Fin 750) (Fin 520) (Fin 760) (Fin 1000) (Fin 1000) =
       \<lparr>estimatedHeight = double (54 / 10), confidence = double (8 / 10) - double (1 / 10),
        referenceUsed = ''Standard urban intersection''\<rparr>"
    unfolding Let_def by blast
  from h c0 c1 c2 c3 e0 e1 e2 e3 show ?thesis
    by simp
qed

text \<open>
  Claim C7: for every box and every image height, the confidence that estimate returns
  lies between 0.5 and 0.9 inclusive, whichever branch of the size adjustment is taken
  (raised and capped at 0.9, lowered and floored at 0.5, or left as it is).
\<close>

theorem estimate_confidence_range:
  "double (5 / 10) \<le> confidence (estimatePoleHeight x1 y1 x2 y2 imageWidth imageHeight)
   \<and> confidence (estimatePoleHeight x1 y1 x2 y2 imageWidth imageHeight) \<le> double (9 / 10)"
  using confidence_sizeAdjust [OF confidence_baseEstimate]
  by (simp add: estimatePoleHeight_def Let_def)

text \<open>
  Claim C9: the estimate does not depend on the horizontal coordinates of the box: two
  boxes with the same ymin and ymax and any xmin and xmax, in an image of the same
  dimensions, get the same height, confidence and reference.
\<close>

theorem estimate_ignores_x:
  "estimatePoleHeight x1 y1 x2 y2 imageWidth imageHeight =
   estimatePoleHeight x1' y1 x2' y2 imageWidth imageHeight"
  by (simp add: estimatePoleHeight_def)

section \<open>Properties of the classification\<close>

subsection \<open>The loop computes the bands of the design\<close>

lemma brightBucket_Cons:
  "brightBucket (p # data) = (if brightness p > Fin 60 then p # brightBucket data else brightBucket data)"
  by (simp add: brightBucket_def)

lemma dimBucket_Cons:
  "dimBucket (p # data) =
     (if \<not> brightness p > Fin 60 \<and> brightness p > Fin 25 then p # dimBucket data else dimBucket data)"
  by (cases "brightness p") (auto simp: dimBucket_def)

lemma veryDimBucket_Cons:
  "veryDimBucket (p # data) =
     (if \<not> brightness p > Fin 60 \<and> \<not> brightness p > Fin 25 \<and> brightness p > Fin 10
      then p # veryDimBucket data else veryDimBucket data)"
  by (cases "brightness p") (auto simp: veryDimBucket_def)

lemma buckets_Nil: "brightBucket [] = []" "dimBucket [] = []" "veryDimBucket [] = []"
  by (simp_all add: brightBucket_def dimBucket_def veryDimBucket_def)

lemma analyzePixels_buckets:
  "analyzePixels data s =
     \<lparr>redSum = redSum s + sum_list (map red (brightBucket data)),
      greenSum = greenSum s + sum_list (map green (brightBucket data)),
      blueSum = blueSum s + sum_list (map blue (brightBucket data)),
      brightPixels = brightPixels s + length (brightBucket data),
      dimPixels = dimPixels s + length (dimBucket data),
      dimRedSum = dimRedSum s + sum_list (map red (dimBucket data)),
      dimGreenSum = dimGreenSum s + sum_list (map green (dimBucket data)),
      dimBlueSum = dimBlueSum s + sum_list (map blue (dimBucket data)),
      veryDimPixels = veryDimPixels s + length (veryDimBucket data),
      veryDimRedSum = veryDimRedSum s + sum_list (map red (veryDimBucket data)),
      veryDimGreenSum = veryDimGreenSum s + sum_list (map green (veryDimBucket data)),
      veryDimBlueSum = veryDimBlueSum s + sum_list (map blue (veryDimBucket data))\<rparr>"
proof (induction data arbitrary: s)
  case Nil
  show ?case by (simp add: buckets_Nil)
next
  case (Cons p data)
  show ?case
    by (simp add: Cons.IH addPixel_def brightBucket_Cons dimBucket_Cons veryDimBucket_Cons)
qed

lemma analyzePixels_noSums:
  "redSum (analyzePixels data noSums) = sum_list (map red (brightBucket data))"
  "greenSum (analyzePixels data noSums) = sum_list (map green (brightBucket data))"
  "blueSum (analyzePixels data noSums) = sum_list (map blue (brightBucket data))"
  "brightPixels (analyzePixels data noSums) = length (brightBucket data)"
  "dimRedSum (analyzePixels data noSums) = sum_list (map red (dimBucket data))"
  "dimGreenSum (analyzePixels data noSums) = sum_list (map green (dimBucket data))"
  "dimBlueSum (analyzePixels data noSums) = sum_list (map blue (dimBucket data))"
  "dimPixels (analyzePixels data noSums) = length (dimBucket data)"
  "veryDimRedSum (analyzePixels data noSums) = sum_list (map red (veryDimBucket data))"
  "veryDimGreenSum (analyzePixels data noSums) = sum_list (map green (veryDimBucket data))"
  "veryDimBlueSum (analyzePixels data noSums) = sum_list (map blue (veryDimBucket data))"
  "veryDimPixels (analyzePixels data noSums) = length (veryDimBucket data)"
  by (simp_all add: analyzePixels_buckets noSums_def)

lemma overallSums_sum_list:
  "overallSums data (x, y, z) =
     (x + sum_list (map red data), y + sum_list (map green data), z + sum_list (map blue data))"
  by (induction data arbitrary: x y z) simp_all

lemma overallCheck_means:
  "overallCheck data =
     (if greenish (meanOf red data) (meanOf green data) (meanOf blue data)
      then ''Green'' else ''Unknown'')"
  by (simp add: overallCheck_def overallSums_sum_list meanOf_def)

lemma analyze_by_buckets:
  "analyzeTrafficLightColor (Some data) =
     (case bucketLabel brightRules (brightBucket data) of Some label \<Rightarrow> label
      | None \<Rightarrow> (case bucketLabel dimRules (dimBucket data) of Some label \<Rightarrow> label
      | None \<Rightarrow> (case bucketLabel veryDimRules (veryDimBucket data) of Some label \<Rightarrow> label
      | None \<Rightarrow> overallCheck data)))"
  by (simp add: analyzeTrafficLightColor_def analyzePixels_noSums bucketLabel_def
      meanOf_def Let_def cong: option.case_cong)

lemma dark_pixel: "x \<le> Fin 10 \<Longrightarrow> \<not> x > Fin 60 \<and> \<not> x > Fin 25 \<and> \<not> x > Fin 10"
  by (cases x) auto

lemma dark_buckets:
  assumes "\<forall>p\<in>set data. brightness p \<le> Fin 10"
  shows "brightBucket data = []" "dimBucket data = []" "veryDimBucket data = []"
  using assms dark_pixel
  by (auto simp: brightBucket_def dimBucket_def veryDimBucket_def filter_empty_conv)

text \<open>
  Claim C2, as the specification states it: for every region in which every pixel has
  brightness (R + G + B) / 3 at most 10, classify returns Unknown.

  A pixel of brightness at most 10 enters no band, but the last check averages every
  pixel of the region, whatever its brightness. The one-pixel region (0, 30, 0) has
  brightness exactly 10 and whole-region means 0, 30, 0: green exceeds red and blue by
  more than 1 and is above 20, and the label is Green.
\<close>

theorem dark_region_counterexample:
  "brightness (0, 30, 0, 255) \<le> Fin 10
   \<and> analyzeTrafficLightColor (Some [(0, 30, 0, 255)]) = ''Green''"
  by code_simp

text \<open>
  Claim C2, amended: for every region in which every pixel has brightness at most 10,
  no band takes part and classify returns the result of the whole-region check: Green
  when the means over all pixels satisfy meanG > meanR + 1, meanG > meanB + 1 and
  meanG > 20, and Unknown otherwise.
\<close>

theorem dark_region_overall_check:
  assumes "\<forall>p\<in>set data. brightness p \<le> Fin 10"
  shows "analyzeTrafficLightColor (Some data) =
     (if greenish (meanOf red data) (meanOf green data) (meanOf blue data)
      then ''Green'' else ''Unknown'')"
  by (simp add: analyze_by_buckets dark_buckets [OF assms] bucketLabel_def overallCheck_means)

theorem dark_region_overall_check_witness:
  "brightness (0, 0, 0, 255) \<le> Fin 10 \<and> brightness (5, 10, 5, 255) \<le> Fin 10
   \<and> analyzeTrafficLightColor (Some [(0, 0, 0, 255), (5, 10, 5, 255)]) = ''Unknown''"
proof -
  have each: "brightness (0, 0, 0, 255) \<le> Fin 10" "brightness (5, 10, 5, 255) \<le> Fin 10"
    by code_simp+
  then have dark: "\<forall>p\<in>set [(0, 0, 0, 255), (5, 10, 5, 255)]. brightness p \<le> Fin 10"
    by simp
  have "\<not> greenish (meanOf red [(0, 0, 0, 255), (5, 10, 5, 255)])
      (meanOf green [(0, 0, 0, 255), (5, 10, 5, 255)])
      (meanOf blue [(0, 0, 0, 255), (5, 10, 5, 255)])"
    by code_simp
  with dark_region_overall_check [OF dark] each show ?thesis
    by simp
qed

lemma rules_labels:
  "brightRules r g b \<in> {None, Some ''Green'', Some ''Red'', Some ''Yellow''}"
  "dimRules r g b \<in> {None, Some ''Green'', Some ''Red'', Some ''Yellow''}"
  "veryDimRules r g b \<in> {None, Some ''Green'', Some ''Red'', Some ''Yellow''}"
  by (simp_all add: brightRules_def dimRules_def veryDimRules_def)

lemma bucketLabel_labels:
  assumes "\<And>r g b. rules r g b \<in> {None, Some ''Green'', Some ''Red'', Some ''Yellow''}"
  shows "bucketLabel rules ps \<in> {None, Some ''Green'', Some ''Red'', Some ''Yellow''}"
  using assms by (simp add: bucketLabel_def)

lemma analyze_labels:
  "analyzeTrafficLightColor imageData \<in> {''Red'', ''Yellow'', ''Green'', ''Unknown''}"
proof (cases imageData)
  case None
  then show ?thesis
    by (simp add: analyzeTrafficLightColor_def)
next
  case (Some data)
  from bucketLabel_labels [of brightRules "brightBucket data", OF rules_labels(1)]
    bucketLabel_labels [of dimRules "dimBucket data", OF rules_labels(2)]
    bucketLabel_labels [of veryDimRules "veryDimBucket data", OF rules_labels(3)]
  show ?thesis
    unfolding Some analyze_by_buckets overallCheck_means
    by (auto split: option.splits)
qed

text \<open>
  Claim C8: classify does not fail on a region without pixels. Where no image data could
  be read at all, and where the region is empty (every band empty and the whole-region
  pixel count zero, so that each overall mean is 0 / 0 = NaN and no comparison holds),
  the label is Unknown; and whatever the region, of any size, a label is returned: one
  of Red, Yellow, Green, Unknown.
\<close>

theorem empty_region_unknown:
  "analyzeTrafficLightColor None = ''Unknown''
   \<and> analyzeTrafficLightColor (Some []) = ''Unknown''
   \<and> analyzeTrafficLightColor imageData \<in> {''Red'', ''Yellow'', ''Green'', ''Unknown''}"
proof -
  have "analyzeTrafficLightColor None = ''Unknown''"
    by (simp add: analyzeTrafficLightColor_def)
  moreover have "analyzeTrafficLightColor (Some []) = ''Unknown''"
    by code_simp
  ultimately show ?thesis
    using analyze_labels by blast
qed

text \<open>
  Claim C3, as the specification states it: for every non-empty region whose pixels are
  uniformly R = 150, G = 120, B = 50, classify returns Yellow, the input matching the
  bright yellow rule and neither the bright red nor the bright green rule.

  The means 150, 120, 50 do match the bright red rule: 150 > 120 + 20 and
  150 > 50 + 20. The red rule is tested before the yellow one, and the one-pixel region
  is labelled Red.
\<close>

theorem amber_region_counterexample:
  "analyzeTrafficLightColor (Some [(150, 120, 50, 255)]) = ''Red''
   \<and> brightRed (Fin 150) (Fin 120) (Fin 50)"
  by code_simp

lemma uniform_sum:
  assumes "\<forall>p\<in>set data. f p = c"
  shows "sum_list (map f data) = c * length data"
  using assms by (induction data) simp_all

lemma average_uniform: "n \<noteq> 0 \<Longrightarrow> average (c * n) n = double (of_nat c)"
  by (simp add: average_def)

lemma amber_values:
  "Fin (of_nat (150 + 120 + 50)) / Fin 3 > Fin 60"
  "brightRules (double (of_nat 150)) (double (of_nat 120)) (double (of_nat 50)) = Some ''Red''"
  by code_simp+

text \<open>
  Claim C3, amended: for every non-empty region whose pixels are uniformly R = 150,
  G = 120, B = 50, classify returns Red: every pixel is bright, the bright means are
  150, 120, 50, they match the bright red rule, and that rule is tested before the
  yellow rule, which they match as well.
\<close>

theorem amber_region_red:
  assumes "data \<noteq> []" and "\<forall>p\<in>set data. rgb p = (150, 120, 50)"
  shows "analyzeTrafficLightColor (Some data) = ''Red''"
proof -
  have chan: "\<forall>p\<in>set data. red p = 150" "\<forall>p\<in>set data. green p = 120"
    "\<forall>p\<in>set data. blue p = 50"
    using assms(2) by (auto split: prod.splits)
  then have "\<forall>p\<in>set data. brightness p > Fin 60"
    using amber_values(1) by (simp add: brightness_def)
  then have bright: "brightBucket data = data"
    by (simp add: brightBucket_def)
  have n: "length data \<noteq> 0"
    using assms(1) by simp
  have "bucketLabel brightRules data = Some ''Red''"
    using assms(1) amber_values(2)
    by (simp add: bucketLabel_def meanOf_def uniform_sum [OF chan(1)] uniform_sum [OF chan(2)]
        uniform_sum [OF chan(3)] average_uniform [OF n])
  then show ?thesis
    by (simp add: analyze_by_buckets bright)
qed

theorem amber_region_red_witness:
  "[(150, 120, 50, 255), (150, 120, 50, 0)] \<noteq> ([] :: pixel list)
   \<and> rgb (150, 120, 50, 255) = (150, 120, 50) \<and> rgb (150, 120, 50, 0) = (150, 120, 50)
   \<and> analyzeTrafficLightColor (Some [(150, 120, 50, 255), (150, 120, 50, 0)]) = ''Red''"
proof -
  have a: "[(150, 120, 50, 255), (150, 120, 50, 0::8 word)] \<noteq> ([] :: pixel list)"
    by simp
  have b: "\<forall>p\<in>set [(150, 120, 50, 255), (150, 120, 50, 0)]. rgb p = (150, 120, 50)"
    by simp
  from amber_region_red [OF a b] show ?thesis
    by simp
qed

lemma bucketLabel_bright:
  "bucketLabel brightRules ps =
     (if holdsOn brightGreen ps then Some ''Green''
      else if holdsOn brightRed ps then Some ''Red''
      else if holdsOn brightYellow ps then Some ''Yellow'' else None)"
  by (simp add: bucketLabel_def brightRules_def holdsOn_def)

lemma bucketLabel_dim:
  "bucketLabel dimRules ps =
     (if holdsOn dimGreen ps then Some ''Green''
      else if holdsOn dimRed ps then Some ''Red''
      else if holdsOn dimYellow ps then Some ''Yellow'' else None)"
  by (simp add: bucketLabel_def dimRules_def holdsOn_def)

lemma bucketLabel_veryDim:
  "bucketLabel veryDimRules ps =
     (if holdsOn veryDimGreen ps then Some ''Green''
      else if holdsOn veryDimRed ps then Some ''Red''
      else if holdsOn veryDimYellow ps then Some ''Yellow'' else None)"
  by (simp add: bucketLabel_def veryDimRules_def holdsOn_def)

lemma less_le_number: "Fin c < x \<Longrightarrow> x \<le> Fin d \<Longrightarrow> c < d"
  by (cases x) auto

lemma bands_of_bright: "brightBucket (brightBucket data) = brightBucket data"
  by (simp add: brightBucket_def)

lemma bands_of_dim:
  "brightBucket (dimBucket data) = []" "dimBucket (dimBucket data) = dimBucket data"
  using less_le_number [of 60 _ 60]
  by (auto simp: brightBucket_def dimBucket_def filter_empty_conv)

lemma bands_of_veryDim:
  "brightBucket (veryDimBucket data) = []" "dimBucket (veryDimBucket data) = []"
  "veryDimBucket (veryDimBucket data) = veryDimBucket data"
  using less_le_number [of 60 _ 25] less_le_number [of 25 _ 25]
  by (auto simp: brightBucket_def dimBucket_def veryDimBucket_def filter_empty_conv)

lemma double_numeral:
  "numeral k < (2::nat) ^ 53 \<Longrightarrow> double (numeral k) = Fin (numeral k)"
  using double_of_nat [of "numeral k"] by simp

lemmas evaluation =
  brightMatch_def dimMatch_def veryDimMatch_def holdsOn_def meanOf_def average_def
  brightBucket_def dimBucket_def veryDimBucket_def brightness_def
  brightGreen_def brightRed_def brightYellow_def dimGreen_def dimRed_def dimYellow_def
  veryDimGreen_def veryDimRed_def veryDimYellow_def greenish_def double_numeral

text \<open>
  Claim C4: for every region, the three bands are evaluated from the brightest to the
  dimmest. A band matches when it is non-empty and its means satisfy one of the colour
  rules of its tier. The first band that matches fixes the result: the label is the
  colour that band alone would be given, whatever the dimmer bands and the rest of the
  region hold, and the whole-region check is not consulted. A band that does not match,
  being empty or non-empty with means that satisfy none of its rules, is passed over for
  the next dimmer one; and the whole-region check decides exactly when no band matches.
\<close>

theorem bucket_priority:
  "(brightMatch data \<longrightarrow>
      analyzeTrafficLightColor (Some data) = analyzeTrafficLightColor (Some (brightBucket data))
      \<and> analyzeTrafficLightColor (Some data) \<in> {''Green'', ''Red'', ''Yellow''})
   \<and> (\<not> brightMatch data \<and> dimMatch data \<longrightarrow>
      analyzeTrafficLightColor (Some data) = analyzeTrafficLightColor (Some (dimBucket data))
      \<and> analyzeTrafficLightColor (Some data) \<in> {''Green'', ''Red'', ''Yellow''})
   \<and> (\<not> brightMatch data \<and> \<not> dimMatch data \<and> veryDimMatch data \<longrightarrow>
      analyzeTrafficLightColor (Some data) = analyzeTrafficLightColor (Some (veryDimBucket data))
      \<and> analyzeTrafficLightColor (Some data) \<in> {''Green'', ''Red'', ''Yellow''})
   \<and> (\<not> brightMatch data \<and> \<not> dimMatch data \<and> \<not> veryDimMatch data \<longrightarrow>
      analyzeTrafficLightColor (Some data) =
        (if greenish (meanOf red data) (meanOf green data) (meanOf blue data)
         then ''Green'' else ''Unknown''))"
proof (intro conjI impI)
  assume "brightMatch data"
  then show "analyzeTrafficLightColor (Some data) =
      analyzeTrafficLightColor (Some (brightBucket data))"
    "analyzeTrafficLightColor (Some data) \<in> {''Green'', ''Red'', ''Yellow''}"
    by (auto simp: analyze_by_buckets bands_of_bright bucketLabel_bright brightMatch_def)
next
  assume "\<not> brightMatch data \<and> dimMatch data"
  then show "analyzeTrafficLightColor (Some data) =
      analyzeTrafficLightColor (Some (dimBucket data))"
    "analyzeTrafficLightColor (Some data) \<in> {''Green'', ''Red'', ''Yellow''}"
    by (auto simp: analyze_by_buckets bands_of_dim bucketLabel_bright bucketLabel_dim
        brightMatch_def dimMatch_def holdsOn_def [of _ "[]"])
next
  assume "\<not> brightMatch data \<and> \<not> dimMatch data \<and> veryDimMatch data"
  then show "analyzeTrafficLightColor (Some data) =
      analyzeTrafficLightColor (Some (veryDimBucket data))"
    "analyzeTrafficLightColor (Some data) \<in> {''Green'', ''Red'', ''Yellow''}"
    by (auto simp: analyze_by_buckets bands_of_veryDim bucketLabel_bright bucketLabel_dim
        bucketLabel_veryDim brightMatch_def dimMatch_def veryDimMatch_def holdsOn_def [of _ "[]"])
next
  assume "\<not> brightMatch data \<and> \<not> dimMatch data \<and> \<not> veryDimMatch data"
  then show "analyzeTrafficLightColor (Some data) =
      (if greenish (meanOf red data) (meanOf green data) (meanOf blue data)
       then ''Green'' else ''Unknown'')"
    by (simp add: analyze_by_buckets bucketLabel_bright bucketLabel_dim bucketLabel_veryDim
        brightMatch_def dimMatch_def veryDimMatch_def overallCheck_means)
qed

theorem bucket_priority_witness:
  "brightMatch [(200, 50, 50, 255), (20, 50, 20, 255)]
   \<and> analyzeTrafficLightColor (Some [(200, 50, 50, 255), (20, 50, 20, 255)]) =
       analyzeTrafficLightColor (Some (brightBucket [(200, 50, 50, 255), (20, 50, 20, 255)]))
   \<and> analyzeTrafficLightColor (Some [(200, 50, 50, 255), (20, 50, 20, 255)]) = ''Red''
   \<and> brightBucket [(100, 100, 100, 255), (20, 50, 20, 255)] \<noteq> []
   \<and> \<not> brightMatch [(100, 100, 100, 255), (20, 50, 20, 255)]
   \<and> dimMatch [(100, 100, 100, 255), (20, 50, 20, 255)]
   \<and> analyzeTrafficLightColor (Some [(100, 100, 100, 255), (20, 50, 20, 255)]) =
       analyzeTrafficLightColor (Some (dimBucket [(100, 100, 100, 255), (20, 50, 20, 255)]))
   \<and> analyzeTrafficLightColor (Some [(100, 100, 100, 255), (20, 50, 20, 255)]) = ''Green''
   \<and> \<not> brightMatch [(100, 100, 100, 255), (40, 40, 40, 255), (10, 22, 10, 255)]
   \<and> \<not> dimMatch [(100, 100, 100, 255), (40, 40, 40, 255), (10, 22, 10, 255)]
   \<and> veryDimMatch [(100, 100, 100, 255), (40, 40, 40, 255), (10, 22, 10, 255)]
   \<and> analyzeTrafficLightColor (Some [(100, 100, 100, 255), (40, 40, 40, 255), (10, 22, 10, 255)]) =
       analyzeTrafficLightColor (Some (veryDimBucket [(100, 100, 100, 255), (40, 40, 40, 255), (10, 22, 10, 255)]))
   \<and> analyzeTrafficLightColor (Some [(100, 100, 100, 255), (40, 40, 40, 255), (10, 22, 10, 255)]) = ''Green''
   \<and> \<not> brightMatch [(100, 100, 100, 255)] \<and> \<not> dimMatch [(100, 100, 100, 255)]
   \<and> \<not> veryDimMatch [(100, 100, 100, 255)]
   \<and> analyzeTrafficLightColor (Some [(100, 100, 100, 255)]) = ''Unknown''"
proof -
  have one: "brightMatch [(200, 50, 50, 255), (20, 50, 20, 255)]"
    "brightBucket [(200, 50, 50, 255), (20, 50, 20, 255)] = [(200, 50, 50, 255)]"
    by (simp_all add: evaluation)
  have two: "brightBucket [(100, 100, 100, 255), (20, 50, 20, 255)] \<noteq> []"
    "\<not> brightMatch [(100, 100, 100, 255), (20, 50, 20, 255)]"
    "dimMatch [(100, 100, 100, 255), (20, 50, 20, 255)]"
    "dimBucket [(100, 100, 100, 255), (20, 50, 20, 255)] = [(20, 50, 20, 255)]"
    by (simp_all add: evaluation)
  have three: "\<not> brightMatch [(100, 100, 100, 255), (40, 40, 40, 255), (10, 22, 10, 255)]"
    "\<not> dimMatch [(100, 100, 100, 255), (40, 40, 40, 255), (10, 22, 10, 255)]"
    "veryDimMatch [(100, 100, 100, 255), (40, 40, 40, 255), (10, 22, 10, 255)]"
    "veryDimBucket [(100, 100, 100, 255), (40, 40, 40, 255), (10, 22, 10, 255)] = [(10, 22, 10, 255)]"
    by (simp_all add: evaluation)
  have four: "\<not> brightMatch [(100, 100, 100, 255)]" "\<not> dimMatch [(100, 100, 100, 255)]"
    "\<not> veryDimMatch [(100, 100, 100, 255)]"
    "\<not> greenish (meanOf red [(100, 100, 100, 255)]) (meanOf green [(100, 100, 100, 255)])
        (meanOf blue [(100, 100, 100, 255)])"
    by (simp_all add: evaluation)
  have alone: "analyzeTrafficLightColor (Some [(200, 50, 50, 255)]) = ''Red''"
    "analyzeTrafficLightColor (Some [(20, 50, 20, 255)]) = ''Green''"
    "analyzeTrafficLightColor (Some [(10, 22, 10, 255)]) = ''Green''"
    by code_simp+
  from bucket_priority [of "[(200, 50, 50, 255), (20, 50, 20, 255)]"] one
  have r1: "analyzeTrafficLightColor (Some [(200, 50, 50, 255), (20, 50, 20, 255)]) =
      analyzeTrafficLightColor (Some (brightBucket [(200, 50, 50, 255), (20, 50, 20, 255)]))"
    by blast
  from bucket_priority [of "[(100, 100, 100, 255), (20, 50, 20, 255)]"] two
  have r2: "analyzeTrafficLightColor (Some [(100, 100, 100, 255), (20, 50, 20, 255)]) =
      analyzeTrafficLightColor (Some (dimBucket [(100, 100, 100, 255), (20, 50, 20, 255)]))"
    by blast
  from bucket_priority [of "[(100, 100, 100, 255), (40, 40, 40, 255), (10, 22, 10, 255)]"] three
  have r3: "analyzeTrafficLightColor (Some [(100, 100, 100, 255), (40, 40, 40, 255), (10, 22, 10, 255)]) =
      analyzeTrafficLightColor (Some (veryDimBucket [(100, 100, 100, 255), (40, 40, 40, 255), (10, 22, 10, 255)]))"
    by blast
  from bucket_priority [of "[(100, 100, 100, 255)]"] four
  have r4: "analyzeTrafficLightColor (Some [(100, 100, 100, 255)]) = ''Unknown''"
    by simp
  from one two three four r1 r2 r3 r4 alone show ?thesis
    by simp
qed

text \<open>
  Claim C5: within each band the rules are tested in the order Green, Red, Yellow, and
  the first that holds gives the label classify returns: Green when the green rule
  holds; Red when the green rule fails and the red one holds; Yellow when both fail and
  the yellow one holds. This is so for the bright band, for the dim band once the bright
  band has not matched, and for the very dim band once neither has. In particular, means
  that satisfy both the green and the yellow rule of the band reached are labelled
  Green.
\<close>

theorem rule_order:
  "(holdsOn brightGreen (brightBucket data) \<longrightarrow>
      analyzeTrafficLightColor (Some data) = ''Green'')
   \<and> (\<not> holdsOn brightGreen (brightBucket data) \<and> holdsOn brightRed (brightBucket data) \<longrightarrow>
      analyzeTrafficLightColor (Some data) = ''Red'')
   \<and> (\<not> holdsOn brightGreen (brightBucket data) \<and> \<not> holdsOn brightRed (brightBucket data)
      \<and> holdsOn brightYellow (brightBucket data) \<longrightarrow>
      analyzeTrafficLightColor (Some data) = ''Yellow'')
   \<and> (\<not> brightMatch data \<and> holdsOn dimGreen (dimBucket data) \<longrightarrow>
      analyzeTrafficLightColor (Some data) = ''Green'')
   \<and> (\<not> brightMatch data \<and> \<not> holdsOn dimGreen (dimBucket data)
      \<and> holdsOn dimRed (dimBucket data) \<longrightarrow>
      analyzeTrafficLightColor (Some data) = ''Red'')
   \<and> (\<not> brightMatch data \<and> \<not> holdsOn dimGreen (dimBucket data)
      \<and> \<not> holdsOn dimRed (dimBucket data) \<and> holdsOn dimYellow (dimBucket data) \<longrightarrow>
      analyzeTrafficLightColor (Some data) = ''Yellow'')
   \<and> (\<not> brightMatch data \<and> \<not> dimMatch data \<and> holdsOn veryDimGreen (veryDimBucket data) \<longrightarrow>
      analyzeTrafficLightColor (Some data) = ''Green'')
   \<and> (\<not> brightMatch data \<and> \<not> dimMatch data \<and> \<not> holdsOn veryDimGreen (veryDimBucket data)
      \<and> holdsOn veryDimRed (veryDimBucket data) \<longrightarrow>
      analyzeTrafficLightColor (Some data) = ''Red'')
   \<and> (\<not> brightMatch data \<and> \<not> dimMatch data \<and> \<not> holdsOn veryDimGreen (veryDimBucket data)
      \<and> \<not> holdsOn veryDimRed (veryDimBucket data)
      \<and> holdsOn veryDimYellow (veryDimBucket data) \<longrightarrow>
      analyzeTrafficLightColor (Some data) = ''Yellow'')
   \<and> (holdsOn brightGreen (brightBucket data) \<and> holdsOn brightYellow (brightBucket data) \<longrightarrow>
      analyzeTrafficLightColor (Some data) = ''Green'')
   \<and> (\<not> brightMatch data \<and> holdsOn dimGreen (dimBucket data)
      \<and> holdsOn dimYellow (dimBucket data) \<longrightarrow>
      analyzeTrafficLightColor (Some data) = ''Green'')
   \<and> (\<not> brightMatch data \<and> \<not> dimMatch data \<and> holdsOn veryDimGreen (veryDimBucket data)
      \<and> holdsOn veryDimYellow (veryDimBucket data) \<longrightarrow>
      analyzeTrafficLightColor (Some data) = ''Green'')"
  by (simp add: analyze_by_buckets bucketLabel_bright bucketLabel_dim bucketLabel_veryDim
      brightMatch_def dimMatch_def)

theorem rule_order_witness:
  "holdsOn brightGreen (brightBucket [(140, 150, 52, 255)])
   \<and> holdsOn brightYellow (brightBucket [(140, 150, 52, 255)])
   \<and> analyzeTrafficLightColor (Some [(140, 150, 52, 255)]) = ''Green''
   \<and> \<not> holdsOn brightGreen (brightBucket [(200, 110, 50, 255)])
   \<and> holdsOn brightRed (brightBucket [(200, 110, 50, 255)])
   \<and> holdsOn brightYellow (brightBucket [(200, 110, 50, 255)])
   \<and> analyzeTrafficLightColor (Some [(200, 110, 50, 255)]) = ''Red''
   \<and> \<not> holdsOn brightGreen (brightBucket [(150, 141, 51, 255)])
   \<and> \<not> holdsOn brightRed (brightBucket [(150, 141, 51, 255)])
   \<and> holdsOn brightYellow (brightBucket [(150, 141, 51, 255)])
   \<and> analyzeTrafficLightColor (Some [(150, 141, 51, 255)]) = ''Yellow''
   \<and> \<not> brightMatch [(20, 50, 20, 255)]
   \<and> holdsOn dimGreen (dimBucket [(20, 50, 20, 255)])
   \<and> analyzeTrafficLightColor (Some [(20, 50, 20, 255)]) = ''Green''"
proof -
  have g: "holdsOn brightGreen (brightBucket [(140, 150, 52, 255)])"
    "holdsOn brightYellow (brightBucket [(140, 150, 52, 255)])"
    by (simp_all add: evaluation)
  have r: "\<not> holdsOn brightGreen (brightBucket [(200, 110, 50, 255)])"
    "holdsOn brightRed (brightBucket [(200, 110, 50, 255)])"
    "holdsOn brightYellow (brightBucket [(200, 110, 50, 255)])"
    by (simp_all add: evaluation)
  have y: "\<not> holdsOn brightGreen (brightBucket [(150, 141, 51, 255)])"
    "\<not> holdsOn brightRed (brightBucket [(150, 141, 51, 255)])"
    "holdsOn brightYellow (brightBucket [(150, 141, 51, 255)])"
    by (simp_all add: evaluation)
  have d: "\<not> brightMatch [(20, 50, 20, 255)]"
    "holdsOn dimGreen (dimBucket [(20, 50, 20, 255)])"
    by (simp_all add: evaluation)
  from rule_order [of "[(140, 150, 52, 255)]"] g
  have lg: "analyzeTrafficLightColor (Some [(140, 150, 52, 255)]) = ''Green''"
    by blast
  from rule_order [of "[(200, 110, 50, 255)]"] r
  have lr: "analyzeTrafficLightColor (Some [(200, 110, 50, 255)]) = ''Red''"
    by blast
  from rule_order [of "[(150, 141, 51, 255)]"] y
  have ly: "analyzeTrafficLightColor (Some [(150, 141, 51, 255)]) = ''Yellow''"
    by blast
  from rule_order [of "[(20, 50, 20, 255)]"] d
  have ld: "analyzeTrafficLightColor (Some [(20, 50, 20, 255)]) = ''Green''"
    by blast
  from g r y d lg lr ly ld show ?thesis
    by simp
qed

subsection \<open>Independence of the pixel order\<close>

lemma sum_filter_rgb:
  fixes f :: "pixel \<Rightarrow> nat"
  assumes f: "\<And>p. f p = f (opaque (rgb p))" and P: "\<And>p. P p = P (opaque (rgb p))"
  shows "sum_list (map f (filter P ps)) =
    sum_mset (image_mset (f \<circ> opaque) (filter_mset (P \<circ> opaque) (mset (map rgb ps))))"
proof (induction ps)
  case Nil
  show ?case by simp
next
  case (Cons p ps)
  from f [of p] P [of p] Cons show ?case
    by simp
qed

lemma sum_filter_perm:
  fixes f :: "pixel \<Rightarrow> nat"
  assumes "mset (map rgb ps) = mset (map rgb qs)"
    and f: "\<And>p. f p = f (opaque (rgb p))" and P: "\<And>p. P p = P (opaque (rgb p))"
  shows "sum_list (map f (filter P ps)) = sum_list (map f (filter P qs))"
  using assms(1) by (simp add: sum_filter_rgb [of f P, OF f P])

lemma length_filter_perm:
  assumes "mset (map rgb ps) = mset (map rgb qs)" and P: "\<And>p. P p = P (opaque (rgb p))"
  shows "length (filter P ps) = length (filter P qs)"
  using sum_filter_perm [where f = "\<lambda>_. 1" and P = P, OF assms(1) refl P]
  by (simp add: sum_list_triv)

lemma channels_opaque:
  "red p = red (opaque (rgb p))" "green p = green (opaque (rgb p))"
  "blue p = blue (opaque (rgb p))" "brightness p = brightness (opaque (rgb p))"
  by (cases p; simp add: opaque_def brightness_def)+


lemma label_perm:
  assumes "mset (map rgb ps) = mset (map rgb qs)" and P: "\<And>p. P p = P (opaque (rgb p))"
  shows "bucketLabel rules (filter P ps) = bucketLabel rules (filter P qs)"
proof -
  have len: "length (filter P ps) = length (filter P qs)"
    by (rule length_filter_perm [where P = P, OF assms(1) P])
  then have "(filter P ps = []) = (filter P qs = [])"
    by (metis length_0_conv)
  with len show ?thesis
    by (simp add: bucketLabel_def meanOf_def
        sum_filter_perm [where f = red and P = P, OF assms(1) channels_opaque(1) P]
        sum_filter_perm [where f = green and P = P, OF assms(1) channels_opaque(2) P]
        sum_filter_perm [where f = blue and P = P, OF assms(1) channels_opaque(3) P])
qed

lemma overallCheck_perm:
  assumes "mset (map rgb ps) = mset (map rgb qs)"
  shows "overallCheck ps = overallCheck qs"
  using sum_filter_perm [where f = red and P = "\<lambda>_. True", OF assms channels_opaque(1) refl]
    sum_filter_perm [where f = green and P = "\<lambda>_. True", OF assms channels_opaque(2) refl]
    sum_filter_perm [where f = blue and P = "\<lambda>_. True", OF assms channels_opaque(3) refl]
    length_filter_perm [where P = "\<lambda>_. True", OF assms refl]
  by (simp add: overallCheck_means meanOf_def)

text \<open>
  Claim C10: classify is invariant under any permutation of the pixels of the region: its
  result depends only on the multiset of the R, G, B values of the pixels, the alpha
  byte being ignored, so two regions holding the same pixels in a different order get
  the same label.
\<close>

theorem classify_permutation_invariant:
  assumes "mset (map rgb ps) = mset (map rgb qs)"
  shows "analyzeTrafficLightColor (Some ps) = analyzeTrafficLightColor (Some qs)"
proof -
  have bright:
    "bucketLabel brightRules (brightBucket ps) = bucketLabel brightRules (brightBucket qs)"
    unfolding brightBucket_def
    by (rule label_perm [OF assms]) (simp add: channels_opaque(4) [symmetric])
  have dim: "bucketLabel dimRules (dimBucket ps) = bucketLabel dimRules (dimBucket qs)"
    unfolding dimBucket_def
    by (rule label_perm [OF assms]) (simp add: channels_opaque(4) [symmetric])
  have veryDim:
    "bucketLabel veryDimRules (veryDimBucket ps) = bucketLabel veryDimRules (veryDimBucket qs)"
    unfolding veryDimBucket_def
    by (rule label_perm [OF assms]) (simp add: channels_opaque(4) [symmetric])
  show ?thesis
    unfolding analyze_by_buckets bright dim veryDim overallCheck_perm [OF assms]
    by (rule refl)
qed

theorem classify_permutation_invariant_witness:
  "mset (map rgb [(0, 255, 0, 255), (200, 50, 50, 10)]) =
     mset (map rgb [(200, 50, 50, 99), (0, 255, 0, 0)])
   \<and> analyzeTrafficLightColor (Some [(0, 255, 0, 255), (200, 50, 50, 10)]) =
       analyzeTrafficLightColor (Some [(200, 50, 50, 99), (0, 255, 0, 0)])"
proof -
  have m: "mset (map rgb [(0, 255, 0, 255), (200, 50, 50, 10)]) =
     mset (map rgb [(200, 50, 50, 99), (0, 255, 0, 0)])"
    by simp
  from classify_permutation_invariant [OF m] m show ?thesis
    by blast
qed

end
